theory Spec2Isabelle
  imports Complex_Main "HOL-Library.Word"
begin

section \<open>Strings of the language runtime\<close>

text \<open>
  A JavaScript string is a sequence of UTF-16 code units, and \<open>length\<close> counts code
  units. A literal of the source is written \<open>lit ''...''\<close>.
\<close>

type_synonym code_unit = "16 word"
type_synonym jsstring = "code_unit list"

definition lit :: "string \<Rightarrow> jsstring" where
  "lit cs = map of_char cs"

text \<open>
  \<open>String.prototype.trim\<close> removes the code units that ECMA-262 calls WhiteSpace or
  LineTerminator from both ends: TAB, LF, VT, FF, CR, SPACE, NBSP, U+1680, U+2000 to U+200A,
  U+2028, U+2029, U+202F, U+205F, U+3000 and U+FEFF.
\<close>

definition isWhiteSpace :: "code_unit \<Rightarrow> bool" where
  "isWhiteSpace c \<longleftrightarrow>
     c = 0x0009 \<or> c = 0x000A \<or> c = 0x000B \<or> c = 0x000C \<or> c = 0x000D \<or> c = 0x0020 \<or>
     c = 0x00A0 \<or> c = 0x1680 \<or> (0x2000 \<le> c \<and> c \<le> 0x200A) \<or> c = 0x2028 \<or>
     c = 0x2029 \<or> c = 0x202F \<or> c = 0x205F \<or> c = 0x3000 \<or> c = 0xFEFF"

definition trimStart :: "jsstring \<Rightarrow> jsstring" where
  "trimStart s = dropWhile isWhiteSpace s"

definition trim :: "jsstring \<Rightarrow> jsstring" where
  "trim s = rev (trimStart (rev (trimStart s)))"

definition startsWith :: "jsstring \<Rightarrow> jsstring \<Rightarrow> bool" where
  "startsWith s p \<longleftrightarrow> take (length p) s = p"

text \<open>
  \<open>String.prototype.substring(start, end)\<close>: both indices are clamped to
  \<open>[0, length]\<close>, and when the clamped start is greater than the clamped end the two
  are swapped.
\<close>

definition substring :: "jsstring \<Rightarrow> int \<Rightarrow> int \<Rightarrow> jsstring" where
  "substring s start end =
     (let len = int (length s);
          finalStart = min (max start 0) len;
          finalEnd = min (max end 0) len;
          from = min finalStart finalEnd;
          to = max finalStart finalEnd
      in take (nat (to - from)) (drop (nat from) s))"

text \<open>\<open>Array.prototype.join\<close> on an array of strings.\<close>

fun join :: "jsstring \<Rightarrow> jsstring list \<Rightarrow> jsstring" where
  "join sep [] = []"
| "join sep [x] = x"
| "join sep (x # y # ys) = x @ sep @ join sep (y # ys)"


section \<open>The state of the \<open>App\<close> component\<close>

text \<open>
  One field for each \<open>useState\<close> hook of \<open>App\<close>. The type \<open>'j\<close> is the type of the
  values other than \<open>null\<close> that \<open>JSON.parse\<close> returns; \<open>None\<close> is \<open>null\<close>.
\<close>

record 'j App_state =
  selectedJob :: jsstring
  customJobTitle :: jsstring
  resumeText :: jsstring
  resumeFileName :: jsstring
  rankingResult :: "'j option"
  isLoading :: bool
  isParsing :: bool
  error :: "jsstring option"

definition initial_state :: "'j App_state" where
  "initial_state =
     \<lparr>selectedJob = [], customJobTitle = [], resumeText = [], resumeFileName = [],
      rankingResult = None, isLoading = False, isParsing = False, error = None\<rparr>"

definition jobTitles :: "jsstring list" where
  "jobTitles =
     [lit ''Software Engineer'', lit ''Frontend Developer'', lit ''Backend Developer'',
      lit ''Full Stack Developer'', lit ''Data Scientist'', lit ''Product Manager'',
      lit ''UX/UI Designer'', lit ''DevOps Engineer'', lit ''Cybersecurity Analyst'',
      lit ''Other'']"

text \<open>The \<open>name\<close> and \<open>type\<close> properties of the selected \<open>File\<close>.\<close>

record File =
  file_name :: jsstring
  file_type :: jsstring

section \<open>\<open>handleFileChange\<close>\<close>

text \<open>
  What the awaited calls of the PDF library deliver: either the text items (\<open>s.str\<close>) of
  every page, in page order, or a rejection, of which the handler reads only \<open>err.name\<close>.
\<close>

datatype pdf_outcome = TextContent "jsstring list list" | Rejected jsstring

text \<open>The \<open>for\<close> loop over the pages, with \<open>fullText\<close> as accumulator.\<close>

fun pageLoop :: "jsstring list list \<Rightarrow> jsstring \<Rightarrow> jsstring" where
  "pageLoop [] fullText = fullText"
| "pageLoop (items # pages) fullText =
     pageLoop pages (fullText @ join (lit '' '') items @ lit ''\<newline>'')"

definition msg_not_pdf :: jsstring where
  "msg_not_pdf = lit ''Please upload a PDF file.''"

definition msg_image_pdf :: jsstring where
  "msg_image_pdf = lit ''This appears to be an image-based PDF with no readable text. Please upload a text-based PDF.''"

definition msg_password :: jsstring where
  "msg_password = lit ''This PDF is password-protected. Please upload an unprotected version.''"

definition msg_unreadable :: jsstring where
  "msg_unreadable = lit ''Could not read resume from PDF. The file might be corrupt or unreadable.''"

text \<open>
  The handler up to its first \<open>await\<close>. The second component is the file handed to the
  PDF library, \<open>None\<close> when the handler returns before the \<open>try\<close> block.
\<close>

definition handleFileChange_start ::
  "File option \<Rightarrow> 'j App_state \<Rightarrow> 'j App_state \<times> File option" where
  "handleFileChange_start file s =
     (case file of
        None \<Rightarrow> (s, None)
      | Some f \<Rightarrow>
          if file_type f \<noteq> lit ''application/pdf''
          then (s\<lparr>error := Some msg_not_pdf, resumeFileName := [], resumeText := []\<rparr>, None)
          else (s\<lparr>isParsing := True, error := None, rankingResult := None,
                  resumeFileName := file_name f, resumeText := []\<rparr>, Some f))"

text \<open>
  The body of the \<open>try\<close> block once the library has answered: \<open>Inl\<close> is the name of the
  exception that leaves the block, \<open>Inr\<close> the state at its normal end or at its \<open>return\<close>.
\<close>

definition fileChange_try :: "pdf_outcome \<Rightarrow> 'j App_state \<Rightarrow> jsstring + 'j App_state" where
  "fileChange_try out s =
     (case out of
        Rejected err_name \<Rightarrow> Inl err_name
      | TextContent pages \<Rightarrow>
          (let fullText = pageLoop pages []
           in if length (trim fullText) < 50
              then Inr (s\<lparr>error := Some msg_image_pdf, resumeFileName := [], resumeText := [],
                          isParsing := False\<rparr>)
              else Inr (s\<lparr>resumeText := fullText\<rparr>)))"

definition fileChange_catch :: "jsstring \<Rightarrow> 'j App_state \<Rightarrow> 'j App_state" where
  "fileChange_catch err_name s =
     (if err_name = lit ''PasswordException''
      then s\<lparr>error := Some msg_password, resumeFileName := [], resumeText := []\<rparr>
      else s\<lparr>error := Some msg_unreadable, resumeFileName := [], resumeText := []\<rparr>)"

text \<open>\<open>try\<close>, \<open>catch\<close> and \<open>finally\<close>, applied to the state at the time the library answers.\<close>

definition handleFileChange_finish :: "pdf_outcome \<Rightarrow> 'j App_state \<Rightarrow> 'j App_state" where
  "handleFileChange_finish out s =
     (case fileChange_try out s of
        Inl err_name \<Rightarrow> fileChange_catch err_name s
      | Inr s' \<Rightarrow> s')\<lparr>isParsing := False\<rparr>"

text \<open>One file selection that runs to its end with no other event in between.\<close>

definition handleFileChange :: "File option \<Rightarrow> pdf_outcome \<Rightarrow> 'j App_state \<Rightarrow> 'j App_state" where
  "handleFileChange file out s =
     (case handleFileChange_start file s of
        (s', None) \<Rightarrow> s'
      | (s', Some f) \<Rightarrow> handleFileChange_finish out s')"

section \<open>\<open>handleRankResume\<close>\<close>

datatype js_exn = SyntaxError | TypeError | ServiceError

text \<open>
  What the awaited \<open>generateContent\<close> call delivers: a rejection, or a response whose
  \<open>text\<close> property is a string or \<open>undefined\<close>.
\<close>

datatype service_outcome = ServiceRejected | Response "jsstring option"

definition msg_validation :: jsstring where
  "msg_validation = lit ''Please select/specify a job title and upload a resume.''"

definition msg_parse_failure :: jsstring where
  "msg_parse_failure = lit ''Failed to analyze resume. The model returned an unexpected format.''"

definition msg_ranking_failure :: jsstring where
  "msg_ranking_failure = lit ''Failed to get ranking. Please check your inputs and try again.''"

definition jobToRank :: "'j App_state \<Rightarrow> jsstring" where
  "jobToRank s = (if selectedJob s = lit ''Other'' then customJobTitle s else selectedJob s)"

text \<open>
  The handler up to its \<open>await\<close>. The second component holds the two values interpolated
  into the prompt when the request is sent, \<open>None\<close> when the handler returns before it.
\<close>

definition handleRankResume_start ::
  "'j App_state \<Rightarrow> 'j App_state \<times> (jsstring \<times> jsstring) option" where
  "handleRankResume_start s =
     (let job = jobToRank s
      in if job = [] \<or> resumeText s = []
         then (s\<lparr>error := Some msg_validation\<rparr>, None)
         else (s\<lparr>isLoading := True, error := None, rankingResult := None\<rparr>,
               Some (job, resumeText s)))"

text \<open>The unwrapping of a fenced code block, lines 165 to 170 of the source.\<close>

definition stripFence :: "jsstring \<Rightarrow> jsstring" where
  "stripFence text =
     (let resultText = trim text
      in if startsWith resultText (lit ''```json'')
         then trim (substring resultText 7 (int (length resultText) - 3))
         else if startsWith resultText (lit ''```'')
         then trim (substring resultText 3 (int (length resultText) - 3))
         else resultText)"

text \<open>
  The inner \<open>try\<close>/\<open>catch\<close> around \<open>JSON.parse\<close>. The parser is a parameter: \<open>Inl\<close> is the
  exception it throws, \<open>Inr\<close> the value it returns, \<open>Inr None\<close> when that value is
  \<open>null\<close>. The value is stored as it is.
\<close>

definition parseStage ::
  "(jsstring \<Rightarrow> js_exn + 'j option) \<Rightarrow> jsstring \<Rightarrow> 'j App_state \<Rightarrow> js_exn + 'j App_state" where
  "parseStage JSON_parse resultText s =
     (case JSON_parse resultText of
        Inr resultJson \<Rightarrow> Inr (s\<lparr>rankingResult := resultJson\<rparr>)
      | Inl parseError \<Rightarrow> Inr (s\<lparr>error := Some msg_parse_failure\<rparr>))"

text \<open>The body of the outer \<open>try\<close> block from the answer of the service on.\<close>

definition rankResume_try ::
  "(jsstring \<Rightarrow> js_exn + 'j option) \<Rightarrow> service_outcome \<Rightarrow> 'j App_state \<Rightarrow>
     js_exn + 'j App_state" where
  "rankResume_try JSON_parse out s =
     (case out of
        ServiceRejected \<Rightarrow> Inl ServiceError
      | Response None \<Rightarrow> Inl TypeError
      | Response (Some text) \<Rightarrow> parseStage JSON_parse (stripFence text) s)"

definition handleRankResume_finish ::
  "(jsstring \<Rightarrow> js_exn + 'j option) \<Rightarrow> service_outcome \<Rightarrow> 'j App_state \<Rightarrow> 'j App_state" where
  "handleRankResume_finish JSON_parse out s =
     (case rankResume_try JSON_parse out s of
        Inl err \<Rightarrow> s\<lparr>error := Some msg_ranking_failure\<rparr>
      | Inr s' \<Rightarrow> s')\<lparr>isLoading := False\<rparr>"

text \<open>The parser of section 4.4: unwrap, then parse.\<close>

definition parseResponse ::
  "(jsstring \<Rightarrow> js_exn + 'j option) \<Rightarrow> jsstring \<Rightarrow> js_exn + 'j option" where
  "parseResponse JSON_parse text = JSON_parse (stripFence text)"

section \<open>The view\<close>

text \<open>The \<open>disabled\<close> attribute of the button that calls \<open>handleRankResume\<close>.\<close>

definition rankButton_disabled :: "'j App_state \<Rightarrow> bool" where
  "rankButton_disabled s \<longleftrightarrow>
     isLoading s \<or> isParsing s \<or> resumeText s = [] \<or> selectedJob s = [] \<or>
     (selectedJob s = lit ''Other'' \<and> customJobTitle s = [])"

text \<open>
  Scores are JavaScript numbers. A finite number is a real, and its comparison with 85 or 60
  is the comparison of reals. The product \<open>item.score * 10\<close> is the exact one, which is the
  product the runtime computes whenever it is representable, as for every integer score.
\<close>

definition getScoreColor :: "real \<Rightarrow> jsstring" where
  "getScoreColor score =
     (if score \<ge> 85 then lit ''high-score''
      else if score \<ge> 60 then lit ''medium-score''
      else lit ''low-score'')"

definition overallScoreColor :: "real \<Rightarrow> jsstring" where
  "overallScoreColor overallScore = getScoreColor overallScore"

definition breakdownScoreColor :: "real \<Rightarrow> jsstring" where
  "breakdownScoreColor item_score = getScoreColor (item_score * 10)"

section \<open>Properties named by the specification\<close>

text \<open>
  The resume document is the pair of \<open>resumeFileName\<close> and \<open>resumeText\<close>. It is consistent
  when both are empty or both are non-empty.
\<close>

definition resumeDocument_consistent :: "'j App_state \<Rightarrow> bool" where
  "resumeDocument_consistent s \<longleftrightarrow> (resumeFileName s = []) = (resumeText s = [])"

text \<open>
  The unwrapping as the specification words it: the opening fence and the final three
  characters are removed from every text that opens a fence. It is compared with
  \<open>stripFence\<close> below.
\<close>

definition stripFence_lastThreeRemoved :: "jsstring \<Rightarrow> jsstring" where
  "stripFence_lastThreeRemoved text =
     (let resultText = trim text
      in if startsWith resultText (lit ''```json'')
         then trim (drop 7 (take (length resultText - 3) resultText))
         else if startsWith resultText (lit ''```'')
         then trim (drop 3 (take (length resultText - 3) resultText))
         else resultText)"

section \<open>Example inputs\<close>

definition example_file :: File where
  "example_file = \<lparr>file_name = lit ''cv.pdf'', file_type = lit ''application/pdf''\<rparr>"

definition example_pages :: "jsstring list list" where
  "example_pages =
     [[lit ''Jane Doe'', lit ''Software engineer, ten years of backend work.''],
      [lit ''Skills: Java, Go, SQL.'']]"

text \<open>Two page texts of 49 and of 50 characters.\<close>

definition text49 :: jsstring where
  "text49 = lit ''Experienced engineer with ten years of Java work.''"

definition text50 :: jsstring where
  "text50 = lit ''Experienced engineer with ten years of Java work:)''"

text \<open>
  A stand-in for \<open>JSON.parse\<close> in the examples: it accepts the texts \<open>{}\<close> and \<open>null\<close>
  only.
\<close>

definition example_parse :: "jsstring \<Rightarrow> js_exn + nat option" where
  "example_parse t =
     (if t = lit ''{}'' then Inr (Some 0)
      else if t = lit ''null'' then Inr None
      else Inl SyntaxError)"

text \<open>
  The state after a job title has been selected and \<open>example_file\<close> has been read with
  \<open>example_pages\<close> as its text.
\<close>

definition resumeReady_state :: "nat App_state" where
  "resumeReady_state =
     handleFileChange (Some example_file) (TextContent example_pages)
       (initial_state\<lparr>selectedJob := lit ''Data Scientist''\<rparr>)"

section \<open>Facts about the string operations\<close>

lemma trimStart_ws_prefix:
  "\<forall>c\<in>set u. isWhiteSpace c \<Longrightarrow> trimStart (u @ s) = trimStart s"
  by (simp add: trimStart_def dropWhile_append2)

lemma trimStart_append_keep:
  "trimStart s \<noteq> [] \<Longrightarrow> trimStart (s @ v) = trimStart s @ v"
  unfolding trimStart_def
  by (induction s) auto

lemma trimStart_all_ws:
  "trimStart s = [] \<Longrightarrow> \<forall>c\<in>set v. isWhiteSpace c \<Longrightarrow> trimStart (s @ v) = []"
  unfolding trimStart_def
  by (induction s) (auto split: if_splits)

lemma trim_ws_around:
  assumes u: "\<forall>c\<in>set u. isWhiteSpace c" and v: "\<forall>c\<in>set v. isWhiteSpace c"
  shows "trim (u @ b @ v) = trim b"
proof (cases "trimStart b = []")
  case True
  then have "trimStart (b @ v) = []" using v by (rule trimStart_all_ws)
  with True u show ?thesis by (simp add: trim_def trimStart_ws_prefix)
next
  case False
  then have "trimStart (b @ v) = trimStart b @ v" by (rule trimStart_append_keep)
  moreover have "trimStart (rev v @ rev (trimStart b)) = trimStart (rev (trimStart b))"
    using v by (simp add: trimStart_ws_prefix)
  ultimately show ?thesis using u by (simp add: trim_def trimStart_ws_prefix)
qed

lemma trimStart_id: "\<not> isWhiteSpace c \<Longrightarrow> trimStart (c # s) = c # s"
  by (simp add: trimStart_def)

lemma trim_id:
  assumes "\<not> isWhiteSpace c" and "\<not> isWhiteSpace d"
  shows "trim (c # s @ [d]) = c # s @ [d]"
  using assms by (simp add: trim_def trimStart_id)

lemma substring_inner:
  assumes "a \<le> e" and "e \<le> length s"
  shows "substring s (int a) (int e) = drop a (take e s)"
proof -
  have "nat (int e - int a) = e - a" by simp
  with assms show ?thesis
    by (simp add: substring_def Let_def min_def max_def drop_take)
qed

lemma substring_middle:
  "substring (p @ m @ q) (int (length p)) (int (length p + length m)) = m"
proof -
  have "substring (p @ m @ q) (int (length p)) (int (length p + length m)) =
        drop (length p) (take (length p + length m) (p @ m @ q))"
    by (rule substring_inner) simp_all
  then show ?thesis by simp
qed

lemma startsWith_append:
  assumes "startsWith s (p @ q)"
  shows "startsWith s p"
proof -
  from assms have "take (length p) (take (length (p @ q)) s) = take (length p) (p @ q)"
    by (simp only: startsWith_def)
  then show ?thesis by (simp add: startsWith_def min_def)
qed

lemma startsWith_json_imp_fence:
  assumes "startsWith r (lit ''```json'')"
  shows "startsWith r (lit ''```'')"
proof -
  have "lit ''```json'' = lit ''```'' @ lit ''json''" by (simp add: lit_def)
  with assms show ?thesis by (simp only: startsWith_append)
qed

lemma substring_swapped:
  assumes "e \<le> a" and "a \<le> length s"
  shows "substring s (int a) (int e) = drop e (take a s)"
proof -
  have "nat (int a - int e) = a - e" by simp
  with assms show ?thesis
    by (simp add: substring_def Let_def min_def max_def drop_take)
qed

lemma startsWith_length: "startsWith s p \<Longrightarrow> length p \<le> length s"
  unfolding startsWith_def
  by (metis length_take min.cobounded1)

lemma stripFence_json_fenced:
  "stripFence (lit ''```json\<newline>'' @ b @ lit ''\<newline>```'') = trim b"
proof -
  let ?F = "lit ''```json\<newline>'' @ b @ lit ''\<newline>```''"
  let ?m = "[10] @ b @ [10]"
  have F: "?F = 96 # ([96, 96, 106, 115, 111, 110, 10] @ b @ [10, 96, 96]) @ [96]"
    by (simp add: lit_def)
  have t: "trim ?F = ?F"
    unfolding F by (rule trim_id) (simp_all add: isWhiteSpace_def)
  have sw: "startsWith ?F (lit ''```json'')"
    by (simp add: startsWith_def lit_def)
  have split: "?F = lit ''```json'' @ ?m @ lit ''```''"
    by (simp add: lit_def)
  have "substring (lit ''```json'' @ ?m @ lit ''```'') (int (length (lit ''```json'')))
          (int (length (lit ''```json'') + length ?m)) = ?m"
    by (rule substring_middle)
  moreover have "int (length (lit ''```json'')) = 7"
    and "int (length (lit ''```json'') + length ?m) = int (length ?F) - 3"
    by (simp_all add: lit_def)
  ultimately have sub: "substring ?F 7 (int (length ?F) - 3) = ?m"
    by (simp only: split [symmetric])
  have "trim ?m = trim b"
    by (rule trim_ws_around) (simp_all add: isWhiteSpace_def)
  with t sw sub show ?thesis
    by (simp add: stripFence_def Let_def)
qed

lemma stripFence_plain_fenced:
  "stripFence (lit ''```\<newline>'' @ b @ lit ''\<newline>```'') = trim b"
proof -
  let ?F = "lit ''```\<newline>'' @ b @ lit ''\<newline>```''"
  let ?m = "[10] @ b @ [10]"
  have F: "?F = 96 # ([96, 96, 10] @ b @ [10, 96, 96]) @ [96]"
    by (simp add: lit_def)
  have t: "trim ?F = ?F"
    unfolding F by (rule trim_id) (simp_all add: isWhiteSpace_def)
  have nsw: "\<not> startsWith ?F (lit ''```json'')"
    by (simp add: startsWith_def lit_def)
  have sw: "startsWith ?F (lit ''```'')"
    by (simp add: startsWith_def lit_def)
  have split: "?F = lit ''```'' @ ?m @ lit ''```''"
    by (simp add: lit_def)
  have "substring (lit ''```'' @ ?m @ lit ''```'') (int (length (lit ''```'')))
          (int (length (lit ''```'') + length ?m)) = ?m"
    by (rule substring_middle)
  moreover have "int (length (lit ''```'')) = 3"
    and "int (length (lit ''```'') + length ?m) = int (length ?F) - 3"
    by (simp_all add: lit_def)
  ultimately have sub: "substring ?F 3 (int (length ?F) - 3) = ?m"
    by (simp only: split [symmetric])
  have "trim ?m = trim b"
    by (rule trim_ws_around) (simp_all add: isWhiteSpace_def)
  with t nsw sw sub show ?thesis
    by (simp add: stripFence_def Let_def)
qed

lemma stripFence_bare:
  assumes "\<not> startsWith (trim b) (lit ''```'')"
  shows "stripFence b = trim b"
proof -
  from assms have "\<not> startsWith (trim b) (lit ''```json'')"
    using startsWith_json_imp_fence by blast
  with assms show ?thesis by (simp add: stripFence_def Let_def)
qed

lemma trim_length50_nonempty: "50 \<le> length (trim t) \<Longrightarrow> t \<noteq> []"
  by (auto simp add: trim_def trimStart_def)

text \<open>The page loop appends the pages in order, each followed by a newline.\<close>

lemma pageLoop_concat:
  "pageLoop pages acc = acc @ concat (map (\<lambda>items. join (lit '' '') items @ lit ''\<newline>'') pages)"
  by (induction pages arbitrary: acc) simp_all

section \<open>Rejection of a file that is not a PDF\<close>

text \<open>
  C7. When the declared type of the selected file is not \<open>application/pdf\<close>, the handler
  returns before its \<open>try\<close> block: nothing is handed to the PDF library, the message
  asking for a PDF is stored, and file name and resume text are empty. Whatever the library
  would have answered has no effect on the state.
\<close>

theorem non_pdf_rejected:
  assumes "file_type f \<noteq> lit ''application/pdf''"
  shows "handleFileChange_start (Some f) s =
           (s\<lparr>error := Some msg_not_pdf, resumeFileName := [], resumeText := []\<rparr>, None) \<and>
         handleFileChange (Some f) out s =
           s\<lparr>error := Some msg_not_pdf, resumeFileName := [], resumeText := []\<rparr>"
  using assms by (simp add: handleFileChange_def handleFileChange_start_def)

theorem non_pdf_rejected_witness:
  "file_type \<lparr>file_name = lit ''cv.docx'', file_type = lit ''application/msword''\<rparr>
     \<noteq> lit ''application/pdf'' \<and>
   snd (handleFileChange_start
         (Some \<lparr>file_name = lit ''cv.docx'', file_type = lit ''application/msword''\<rparr>)
         ((initial_state :: nat App_state)
            \<lparr>resumeFileName := lit ''old.pdf'', resumeText := lit ''old text''\<rparr>)) = None \<and>
   handleFileChange
      (Some \<lparr>file_name = lit ''cv.docx'', file_type = lit ''application/msword''\<rparr>)
      (TextContent [[lit ''never read'']])
      ((initial_state :: nat App_state)
         \<lparr>resumeFileName := lit ''old.pdf'', resumeText := lit ''old text''\<rparr>)
    = initial_state\<lparr>error := Some msg_not_pdf\<rparr>"
proof -
  have h: "file_type \<lparr>file_name = lit ''cv.docx'', file_type = lit ''application/msword''\<rparr>
             \<noteq> lit ''application/pdf''"
    by (simp add: lit_def)
  show ?thesis
    using h non_pdf_rejected [OF h,
        of "(initial_state :: nat App_state)
              \<lparr>resumeFileName := lit ''old.pdf'', resumeText := lit ''old text''\<rparr>"
           "TextContent [[lit ''never read'']]"]
    by (simp add: initial_state_def)
qed

text \<open>
  C9. A file that is not a PDF changes only the error message and the two resume fields:
  the ranking result of an earlier analysis stays as it was, next to the message asking for
  a PDF. Result and error are cleared on the other branch, the one that sets \<open>isParsing\<close>
  and hands the file to the PDF library.
\<close>

theorem non_pdf_keeps_result:
  "(file_type f \<noteq> lit ''application/pdf'' \<longrightarrow>
      rankingResult (fst (handleFileChange_start (Some f) s)) = rankingResult s \<and>
      error (fst (handleFileChange_start (Some f) s)) = Some msg_not_pdf \<and>
      fst (handleFileChange_start (Some f) s) =
        s\<lparr>error := Some msg_not_pdf, resumeFileName := [], resumeText := []\<rparr>) \<and>
   (file_type f = lit ''application/pdf'' \<longrightarrow>
      snd (handleFileChange_start (Some f) s) = Some f \<and>
      isParsing (fst (handleFileChange_start (Some f) s)) \<and>
      rankingResult (fst (handleFileChange_start (Some f) s)) = None \<and>
      error (fst (handleFileChange_start (Some f) s)) = None)"
  by (simp add: handleFileChange_start_def)

theorem non_pdf_keeps_result_witness:
  "rankingResult (fst (handleFileChange_start
       (Some \<lparr>file_name = lit ''photo.png'', file_type = lit ''image/png''\<rparr>)
       ((initial_state :: nat App_state)\<lparr>rankingResult := Some 7\<rparr>))) = Some 7 \<and>
   error (fst (handleFileChange_start
       (Some \<lparr>file_name = lit ''photo.png'', file_type = lit ''image/png''\<rparr>)
       ((initial_state :: nat App_state)\<lparr>rankingResult := Some 7\<rparr>))) = Some msg_not_pdf \<and>
   rankingResult (fst (handleFileChange_start
       (Some \<lparr>file_name = lit ''cv.pdf'', file_type = lit ''application/pdf''\<rparr>)
       ((initial_state :: nat App_state)\<lparr>rankingResult := Some 7\<rparr>))) = None"
  using
    non_pdf_keeps_result [of "\<lparr>file_name = lit ''photo.png'', file_type = lit ''image/png''\<rparr>"
       "(initial_state :: nat App_state)\<lparr>rankingResult := Some 7\<rparr>"]
    non_pdf_keeps_result [of "\<lparr>file_name = lit ''cv.pdf'', file_type = lit ''application/pdf''\<rparr>"
       "(initial_state :: nat App_state)\<lparr>rankingResult := Some 7\<rparr>"]
  by (simp add: lit_def)

section \<open>Score bands\<close>

text \<open>
  C8. \<open>getScoreColor\<close> gives the high band from 85 on, the medium band from 60 up to but
  not including 85, and the low band below 60. A breakdown score is multiplied by 10 and
  banded by the same function, so a breakdown score of 9 and an overall score of 90 get the
  same band.
\<close>

theorem getScoreColor_bands:
  "(85 \<le> s \<longrightarrow> getScoreColor s = lit ''high-score'') \<and>
   (60 \<le> s \<and> s < 85 \<longrightarrow> getScoreColor s = lit ''medium-score'') \<and>
   (s < 60 \<longrightarrow> getScoreColor s = lit ''low-score'') \<and>
   breakdownScoreColor b = getScoreColor (b * 10) \<and>
   breakdownScoreColor 9 = overallScoreColor 90"
  by (simp add: getScoreColor_def breakdownScoreColor_def overallScoreColor_def)

theorem getScoreColor_bands_witness:
  "getScoreColor 90 = lit ''high-score'' \<and> getScoreColor 85 = lit ''high-score'' \<and>
   getScoreColor 84 = lit ''medium-score'' \<and> getScoreColor 60 = lit ''medium-score'' \<and>
   getScoreColor 59 = lit ''low-score'' \<and>
   breakdownScoreColor 9 = lit ''high-score'' \<and> overallScoreColor 90 = lit ''high-score''"
  using getScoreColor_bands [of 90 9] getScoreColor_bands [of 85 9] getScoreColor_bands [of 84 9]
    getScoreColor_bands [of 60 9] getScoreColor_bands [of 59 9]
  by (simp add: overallScoreColor_def)

section \<open>The threshold for readable text\<close>

text \<open>
  C4. When the PDF library has delivered the text of every page, the handler compares the
  length of the trimmed concatenation with 50. Below 50 (49 included) it stores the message
  about an image-based PDF and empties file name and resume text. From 50 on it stores the
  concatenated text, untrimmed, and touches neither the error nor the file name.
\<close>

theorem readable_text_threshold:
  "(length (trim (pageLoop pages [])) < 50 \<longrightarrow>
      handleFileChange_finish (TextContent pages) s =
        s\<lparr>error := Some msg_image_pdf, resumeFileName := [], resumeText := [],
          isParsing := False\<rparr>) \<and>
   (50 \<le> length (trim (pageLoop pages [])) \<longrightarrow>
      handleFileChange_finish (TextContent pages) s =
        s\<lparr>resumeText := pageLoop pages [], isParsing := False\<rparr>)"
  by (simp add: handleFileChange_finish_def fileChange_try_def Let_def)

theorem readable_text_threshold_witness:
  "length (trim (pageLoop [[text49]] [])) = 49 \<and>
   handleFileChange_finish (TextContent [[text49]])
      (fst (handleFileChange_start (Some example_file) (initial_state :: nat App_state)))
     = initial_state\<lparr>error := Some msg_image_pdf\<rparr> \<and>
   length (trim (pageLoop [[text50]] [])) = 50 \<and>
   handleFileChange_finish (TextContent [[text50]])
      (fst (handleFileChange_start (Some example_file) (initial_state :: nat App_state)))
     = initial_state\<lparr>resumeFileName := lit ''cv.pdf'', resumeText := text50 @ lit ''\<newline>''\<rparr>"
proof -
  let ?s = "fst (handleFileChange_start (Some example_file) (initial_state :: nat App_state))"
  have a: "length (trim (pageLoop [[text49]] [])) = 49" by code_simp
  have b: "length (trim (pageLoop [[text50]] [])) = 50" by code_simp
  have c: "?s\<lparr>error := Some msg_image_pdf, resumeFileName := [], resumeText := [],
             isParsing := False\<rparr> = initial_state\<lparr>error := Some msg_image_pdf\<rparr>"
    by code_simp
  have d: "?s\<lparr>resumeText := pageLoop [[text50]] [], isParsing := False\<rparr> =
      initial_state\<lparr>resumeFileName := lit ''cv.pdf'', resumeText := text50 @ lit ''\<newline>''\<rparr>"
    by code_simp
  have "handleFileChange_finish (TextContent [[text49]]) ?s =
      ?s\<lparr>error := Some msg_image_pdf, resumeFileName := [], resumeText := [],
         isParsing := False\<rparr>"
    using a readable_text_threshold [of "[[text49]]" ?s] by simp
  from this c have e: "handleFileChange_finish (TextContent [[text49]]) ?s =
      initial_state\<lparr>error := Some msg_image_pdf\<rparr>"
    by (rule trans)
  have "handleFileChange_finish (TextContent [[text50]]) ?s =
      ?s\<lparr>resumeText := pageLoop [[text50]] [], isParsing := False\<rparr>"
    using b readable_text_threshold [of "[[text50]]" ?s] by simp
  from this d have "handleFileChange_finish (TextContent [[text50]]) ?s =
      initial_state\<lparr>resumeFileName := lit ''cv.pdf'', resumeText := text50 @ lit ''\<newline>''\<rparr>"
    by (rule trans)
  with a b e show ?thesis by blast
qed

section \<open>Responses that do not parse\<close>

text \<open>
  C6. When \<open>JSON.parse\<close> throws on the unwrapped response text, the inner \<open>catch\<close> ends
  the parse stage normally with the message about an unexpected format stored. No exception
  leaves the \<open>try\<close> block, the handler ends with that message (not the one of the outer
  \<open>catch\<close>), \<open>isLoading\<close> is reset, and the ranking result is not set: it is what it was,
  which is \<open>null\<close> in the state the handler left when it sent the request.
\<close>

theorem parse_failure_caught:
  assumes "JSON_parse (stripFence text) = Inl e"
  shows "parseStage JSON_parse (stripFence text) s = Inr (s\<lparr>error := Some msg_parse_failure\<rparr>) \<and>
         rankResume_try JSON_parse (Response (Some text)) s =
           Inr (s\<lparr>error := Some msg_parse_failure\<rparr>) \<and>
         handleRankResume_finish JSON_parse (Response (Some text)) s =
           s\<lparr>error := Some msg_parse_failure, isLoading := False\<rparr> \<and>
         rankingResult (handleRankResume_finish JSON_parse (Response (Some text)) s) =
           rankingResult s \<and>
         rankingResult (handleRankResume_finish JSON_parse (Response (Some text))
            (s\<lparr>isLoading := True, error := None, rankingResult := None\<rparr>)) = None"
  using assms
  by (simp add: parseStage_def rankResume_try_def handleRankResume_finish_def)

theorem parse_failure_caught_witness:
  "example_parse (stripFence (lit ''Sorry, I cannot rank this resume.'')) = Inl SyntaxError \<and>
   handleRankResume_finish example_parse (Response (Some (lit ''Sorry, I cannot rank this resume.'')))
     (fst (handleRankResume_start resumeReady_state))
   = resumeReady_state\<lparr>error := Some msg_parse_failure\<rparr> \<and>
   msg_parse_failure \<noteq> msg_ranking_failure"
proof -
  let ?s = "fst (handleRankResume_start resumeReady_state)"
  have h: "example_parse (stripFence (lit ''Sorry, I cannot rank this resume.'')) = Inl SyntaxError"
    by code_simp
  have r: "?s\<lparr>error := Some msg_parse_failure, isLoading := False\<rparr> =
       resumeReady_state\<lparr>error := Some msg_parse_failure\<rparr>"
    by code_simp
  have m: "msg_parse_failure \<noteq> msg_ranking_failure" by code_simp
  have "handleRankResume_finish example_parse
          (Response (Some (lit ''Sorry, I cannot rank this resume.''))) ?s =
        ?s\<lparr>error := Some msg_parse_failure, isLoading := False\<rparr>"
    using parse_failure_caught
      [of example_parse "lit ''Sorry, I cannot rank this resume.''" SyntaxError ?s, OF h]
    by blast
  from this r have "handleRankResume_finish example_parse
          (Response (Some (lit ''Sorry, I cannot rank this resume.''))) ?s =
        resumeReady_state\<lparr>error := Some msg_parse_failure\<rparr>"
    by (rule trans)
  with h m show ?thesis by blast
qed

text \<open>
  A response that parses is stored as parsed: the object of a fenced response, and \<open>null\<close>
  for the text \<open>null\<close>.
\<close>

lemma parsed_value_stored_example:
  "rankingResult (handleRankResume_finish example_parse (Response (Some (lit ''null'')))
      (fst (handleRankResume_start resumeReady_state))) = None \<and>
   rankingResult (handleRankResume_finish example_parse
      (Response (Some (lit ''```json\<newline>{}\<newline>```'')))
      (fst (handleRankResume_start resumeReady_state))) = Some 0"
  by code_simp

section \<open>The effective job title\<close>

text \<open>
  C2, as the code has it. For a selected title other than \<open>Other\<close> the effective job title
  is the selected title. For \<open>Other\<close> it is the custom text exactly as typed: the code
  does not trim it. With \<open>Other\<close> selected and an empty custom text the button that triggers
  the analysis is disabled. The effective job title is the one sent with the request.
\<close>

theorem jobToRank_untrimmed:
  "(selectedJob s \<noteq> lit ''Other'' \<longrightarrow> jobToRank s = selectedJob s) \<and>
   (selectedJob s = lit ''Other'' \<longrightarrow> jobToRank s = customJobTitle s) \<and>
   (selectedJob s = lit ''Other'' \<and> customJobTitle s = [] \<longrightarrow> rankButton_disabled s) \<and>
   (snd (handleRankResume_start s) \<noteq> None \<longrightarrow>
      snd (handleRankResume_start s) = Some (jobToRank s, resumeText s))"
  by (simp add: jobToRank_def rankButton_disabled_def handleRankResume_start_def Let_def)

theorem jobToRank_untrimmed_witness:
  "jobToRank (resumeReady_state\<lparr>selectedJob := lit ''Frontend Developer''\<rparr>)
     = lit ''Frontend Developer'' \<and>
   jobToRank (resumeReady_state
      \<lparr>selectedJob := lit ''Other'', customJobTitle := lit ''Data Engineer''\<rparr>)
     = lit ''Data Engineer'' \<and>
   rankButton_disabled (resumeReady_state\<lparr>selectedJob := lit ''Other''\<rparr>) \<and>
   snd (handleRankResume_start (resumeReady_state
      \<lparr>selectedJob := lit ''Other'', customJobTitle := lit ''Data Engineer''\<rparr>))
     = Some (lit ''Data Engineer'', resumeText resumeReady_state)"
proof -
  have n: "lit ''Frontend Developer'' \<noteq> lit ''Other''" by (simp add: lit_def)
  have a: "jobToRank (resumeReady_state\<lparr>selectedJob := lit ''Frontend Developer''\<rparr>)
     = lit ''Frontend Developer''"
    using n jobToRank_untrimmed [of "resumeReady_state\<lparr>selectedJob := lit ''Frontend Developer''\<rparr>"]
    by simp
  have b: "jobToRank (resumeReady_state
      \<lparr>selectedJob := lit ''Other'', customJobTitle := lit ''Data Engineer''\<rparr>)
     = lit ''Data Engineer''"
    using jobToRank_untrimmed [of "resumeReady_state
      \<lparr>selectedJob := lit ''Other'', customJobTitle := lit ''Data Engineer''\<rparr>"]
    by simp
  have e: "customJobTitle resumeReady_state = []" by code_simp
  have c: "rankButton_disabled (resumeReady_state\<lparr>selectedJob := lit ''Other''\<rparr>)"
    using e jobToRank_untrimmed [of "resumeReady_state\<lparr>selectedJob := lit ''Other''\<rparr>"]
    by simp
  have st: "snd (handleRankResume_start (resumeReady_state
      \<lparr>selectedJob := lit ''Other'', customJobTitle := lit ''Data Engineer''\<rparr>)) \<noteq> None"
    by code_simp
  have d: "snd (handleRankResume_start (resumeReady_state
      \<lparr>selectedJob := lit ''Other'', customJobTitle := lit ''Data Engineer''\<rparr>))
     = Some (lit ''Data Engineer'', resumeText resumeReady_state)"
    using st b jobToRank_untrimmed [of "resumeReady_state
      \<lparr>selectedJob := lit ''Other'', customJobTitle := lit ''Data Engineer''\<rparr>"]
    by simp
  from a b c d show ?thesis by blast
qed

text \<open>
  C2 as stated fails: with \<open>Other\<close> selected and a custom text with a space on each side,
  the effective job title is not the trimmed custom text.
\<close>

theorem jobToRank_trim_counterexample:
  "jobToRank (resumeReady_state\<lparr>selectedJob := lit ''Other'', customJobTitle := lit '' QA ''\<rparr>)
     \<noteq> trim (customJobTitle
           (resumeReady_state\<lparr>selectedJob := lit ''Other'', customJobTitle := lit '' QA ''\<rparr>))"
  by (simp add: jobToRank_def trim_def trimStart_def isWhiteSpace_def lit_def)

section \<open>The guard of the analysis trigger\<close>

text \<open>
  C3, as the code has it. \<open>handleRankResume\<close> checks two things: that the effective job
  title is non-empty and that the resume text is non-empty. When either is empty it stores
  the validation message and returns without sending a request, leaving the rest of the
  state as it was. When both are non-empty it sets \<open>isLoading\<close>, clears error and result and
  sends the request. It reads neither \<open>isLoading\<close> nor \<open>isParsing\<close>: those two are checked
  by the \<open>disabled\<close> attribute of the button only, and an enabled button implies that the
  handler sends the request.
\<close>

theorem handleRankResume_guard:
  "(jobToRank s = [] \<or> resumeText s = [] \<longrightarrow>
      handleRankResume_start s = (s\<lparr>error := Some msg_validation\<rparr>, None)) \<and>
   (jobToRank s \<noteq> [] \<and> resumeText s \<noteq> [] \<longrightarrow>
      handleRankResume_start s =
        (s\<lparr>isLoading := True, error := None, rankingResult := None\<rparr>,
         Some (jobToRank s, resumeText s))) \<and>
   (isLoading s \<or> isParsing s \<longrightarrow> rankButton_disabled s) \<and>
   (\<not> rankButton_disabled s \<longrightarrow> snd (handleRankResume_start s) \<noteq> None)"
  by (auto simp add: handleRankResume_start_def rankButton_disabled_def jobToRank_def Let_def)

theorem handleRankResume_guard_witness:
  "handleRankResume_start (initial_state :: nat App_state) =
     (initial_state\<lparr>error := Some msg_validation\<rparr>, None) \<and>
   \<not> rankButton_disabled resumeReady_state \<and>
   handleRankResume_start resumeReady_state =
     (resumeReady_state\<lparr>isLoading := True, error := None, rankingResult := None\<rparr>,
      Some (lit ''Data Scientist'', resumeText resumeReady_state)) \<and>
   rankButton_disabled (fst (handleRankResume_start resumeReady_state))"
proof -
  have i: "jobToRank (initial_state :: nat App_state) = []" by code_simp
  have a: "handleRankResume_start (initial_state :: nat App_state) =
     (initial_state\<lparr>error := Some msg_validation\<rparr>, None)"
    using i handleRankResume_guard [of "initial_state :: nat App_state"] by simp
  have en: "\<not> rankButton_disabled resumeReady_state" by code_simp
  have j: "jobToRank resumeReady_state = lit ''Data Scientist''" by code_simp
  have j0: "jobToRank resumeReady_state \<noteq> []" by code_simp
  have r0: "resumeText resumeReady_state \<noteq> []" by code_simp
  have b: "handleRankResume_start resumeReady_state =
     (resumeReady_state\<lparr>isLoading := True, error := None, rankingResult := None\<rparr>,
      Some (lit ''Data Scientist'', resumeText resumeReady_state))"
    using j0 r0 handleRankResume_guard [of resumeReady_state] by (simp add: j)
  have l: "isLoading (fst (handleRankResume_start resumeReady_state))" by code_simp
  have c: "rankButton_disabled (fst (handleRankResume_start resumeReady_state))"
    using l handleRankResume_guard [of "fst (handleRankResume_start resumeReady_state)"]
    by blast
  from a en b c show ?thesis by blast
qed

text \<open>
  C3 as stated fails: in the state the handler leaves when it has sent a request,
  \<open>isLoading\<close> holds, and the handler called again sends a second request and stores no
  validation message.
\<close>

theorem handleRankResume_in_flight_counterexample:
  "isLoading (fst (handleRankResume_start resumeReady_state)) \<and>
   snd (handleRankResume_start (fst (handleRankResume_start resumeReady_state))) \<noteq> None \<and>
   error (fst (handleRankResume_start (fst (handleRankResume_start resumeReady_state))))
     \<noteq> Some msg_validation"
  by code_simp

section \<open>Unwrapping a fenced response\<close>

text \<open>
  C5. Let \<open>b\<close> be a body text that, once trimmed, does not itself open a fence, as is the
  case for every JSON text. Parsing \<open>b\<close> wrapped in a fence tagged \<open>json\<close>, with a newline
  after the opening and before the closing fence, gives what parsing \<open>b\<close> gives, for any
  parser; the same holds for an untagged fence, and the handler ends in the same state.
\<close>

theorem fence_stripping_neutral:
  assumes "\<not> startsWith (trim b) (lit ''```'')"
  shows "parseResponse JSON_parse (lit ''```json\<newline>'' @ b @ lit ''\<newline>```'') =
           parseResponse JSON_parse b \<and>
         parseResponse JSON_parse (lit ''```\<newline>'' @ b @ lit ''\<newline>```'') =
           parseResponse JSON_parse b \<and>
         handleRankResume_finish JSON_parse
            (Response (Some (lit ''```json\<newline>'' @ b @ lit ''\<newline>```''))) s =
           handleRankResume_finish JSON_parse (Response (Some b)) s \<and>
         handleRankResume_finish JSON_parse
            (Response (Some (lit ''```\<newline>'' @ b @ lit ''\<newline>```''))) s =
           handleRankResume_finish JSON_parse (Response (Some b)) s"
  using stripFence_bare [OF assms]
  by (simp add: parseResponse_def handleRankResume_finish_def rankResume_try_def
      stripFence_json_fenced stripFence_plain_fenced)

theorem fence_stripping_neutral_witness:
  "\<not> startsWith (trim (lit ''{}'')) (lit ''```'') \<and>
   parseResponse example_parse (lit ''```json\<newline>{}\<newline>```'') = Inr (Some 0) \<and>
   parseResponse example_parse (lit ''```\<newline>{}\<newline>```'') = Inr (Some 0) \<and>
   parseResponse example_parse (lit ''{}'') = Inr (Some 0)"
proof -
  have h: "\<not> startsWith (trim (lit ''{}'')) (lit ''```'')" by code_simp
  have b: "parseResponse example_parse (lit ''{}'') = Inr (Some 0)" by code_simp
  have j: "lit ''```json\<newline>'' @ lit ''{}'' @ lit ''\<newline>```'' = lit ''```json\<newline>{}\<newline>```''"
    and p: "lit ''```\<newline>'' @ lit ''{}'' @ lit ''\<newline>```'' = lit ''```\<newline>{}\<newline>```''"
    by (simp_all add: lit_def)
  show ?thesis
    using h b fence_stripping_neutral [OF h, of example_parse]
    by (simp add: j p)
qed

text \<open>
  The hypothesis on \<open>b\<close> is needed: a body that is itself a fenced text is unwrapped when
  it is parsed bare, and only once when it is wrapped again.
\<close>

lemma fenced_body_example:
  "parseResponse example_parse (lit ''```{}```'') = Inr (Some 0) \<and>
   parseResponse example_parse (lit ''```json\<newline>'' @ lit ''```{}```'' @ lit ''\<newline>```'')
     = Inl SyntaxError"
  by code_simp

text \<open>
  C10, as the code has it. The unwrapping never looks at the end of the text. For a trimmed
  text that starts with the tagged fence and has at least 10 characters, and for one that
  starts with the untagged fence only and has at least 6, it removes the opening fence and
  the final three characters, whatever they are. For a shorter text \<open>substring\<close> gets a
  start beyond its end and swaps the two, and what is kept are the characters from position
  \<open>length - 3\<close> up to the end of the opening fence.
\<close>

theorem stripFence_by_length:
  "(startsWith (trim text) (lit ''```json'') \<and> 10 \<le> length (trim text) \<longrightarrow>
      stripFence text = stripFence_lastThreeRemoved text) \<and>
   (\<not> startsWith (trim text) (lit ''```json'') \<and> startsWith (trim text) (lit ''```'') \<and>
    6 \<le> length (trim text) \<longrightarrow>
      stripFence text = stripFence_lastThreeRemoved text) \<and>
   (startsWith (trim text) (lit ''```json'') \<and> length (trim text) < 10 \<longrightarrow>
      stripFence text = trim (drop (length (trim text) - 3) (take 7 (trim text)))) \<and>
   (\<not> startsWith (trim text) (lit ''```json'') \<and> startsWith (trim text) (lit ''```'') \<and>
    length (trim text) < 6 \<longrightarrow>
      stripFence text = trim (drop (length (trim text) - 3) (take 3 (trim text))))"
proof -
  let ?r = "trim text"
  have three: "3 \<le> length ?r \<Longrightarrow> int (length ?r) - 3 = int (length ?r - 3)" by simp
  have a: "startsWith ?r (lit ''```json'') \<and> 10 \<le> length ?r \<longrightarrow>
      stripFence text = stripFence_lastThreeRemoved text"
  proof (intro impI, elim conjE)
    assume sw: "startsWith ?r (lit ''```json'')" and len: "10 \<le> length ?r"
    have "substring ?r (int 7) (int (length ?r - 3)) = drop 7 (take (length ?r - 3) ?r)"
      using len by (intro substring_inner) simp_all
    with sw len three show "stripFence text = stripFence_lastThreeRemoved text"
      by (simp add: stripFence_def stripFence_lastThreeRemoved_def Let_def)
  qed
  have b: "\<not> startsWith ?r (lit ''```json'') \<and> startsWith ?r (lit ''```'') \<and> 6 \<le> length ?r \<longrightarrow>
      stripFence text = stripFence_lastThreeRemoved text"
  proof (intro impI, elim conjE)
    assume nsw: "\<not> startsWith ?r (lit ''```json'')" and sw: "startsWith ?r (lit ''```'')"
      and len: "6 \<le> length ?r"
    have "substring ?r (int 3) (int (length ?r - 3)) = drop 3 (take (length ?r - 3) ?r)"
      using len by (intro substring_inner) simp_all
    with nsw sw len three show "stripFence text = stripFence_lastThreeRemoved text"
      by (simp add: stripFence_def stripFence_lastThreeRemoved_def Let_def)
  qed
  have c: "startsWith ?r (lit ''```json'') \<and> length ?r < 10 \<longrightarrow>
      stripFence text = trim (drop (length ?r - 3) (take 7 ?r))"
  proof (intro impI, elim conjE)
    assume sw: "startsWith ?r (lit ''```json'')" and len: "length ?r < 10"
    from startsWith_length [OF sw] have l7: "7 \<le> length ?r" by (simp add: lit_def)
    have "substring ?r (int 7) (int (length ?r - 3)) = drop (length ?r - 3) (take 7 ?r)"
      using len l7 by (intro substring_swapped) simp_all
    with sw l7 three show "stripFence text = trim (drop (length ?r - 3) (take 7 ?r))"
      by (simp add: stripFence_def Let_def)
  qed
  have d: "\<not> startsWith ?r (lit ''```json'') \<and> startsWith ?r (lit ''```'') \<and> length ?r < 6 \<longrightarrow>
      stripFence text = trim (drop (length ?r - 3) (take 3 ?r))"
  proof (intro impI, elim conjE)
    assume nsw: "\<not> startsWith ?r (lit ''```json'')" and sw: "startsWith ?r (lit ''```'')"
      and len: "length ?r < 6"
    from startsWith_length [OF sw] have l3: "3 \<le> length ?r" by (simp add: lit_def)
    have "substring ?r (int 3) (int (length ?r - 3)) = drop (length ?r - 3) (take 3 ?r)"
      using len l3 by (intro substring_swapped) simp_all
    with nsw sw l3 three show "stripFence text = trim (drop (length ?r - 3) (take 3 ?r))"
      by (simp add: stripFence_def Let_def)
  qed
  from a b c d show ?thesis by blast
qed

theorem stripFence_by_length_witness:
  "stripFence (lit ''```json\<newline>[1,2,3]'') = lit ''[1,2'' \<and>
   stripFence (lit ''```\<newline>[1,2,3]'') = lit ''[1,2'' \<and>
   stripFence (lit ''```json{}'') = lit ''n'' \<and>
   stripFence (lit ''```'') = lit ''```''"
proof -
  have a: "startsWith (trim (lit ''```json\<newline>[1,2,3]'')) (lit ''```json'') \<and>
           10 \<le> length (trim (lit ''```json\<newline>[1,2,3]''))" by code_simp
  have a': "stripFence_lastThreeRemoved (lit ''```json\<newline>[1,2,3]'') = lit ''[1,2''" by code_simp
  have b: "\<not> startsWith (trim (lit ''```\<newline>[1,2,3]'')) (lit ''```json'') \<and>
           startsWith (trim (lit ''```\<newline>[1,2,3]'')) (lit ''```'') \<and>
           6 \<le> length (trim (lit ''```\<newline>[1,2,3]''))" by code_simp
  have b': "stripFence_lastThreeRemoved (lit ''```\<newline>[1,2,3]'') = lit ''[1,2''" by code_simp
  have c: "startsWith (trim (lit ''```json{}'')) (lit ''```json'') \<and>
           length (trim (lit ''```json{}'')) < 10" by code_simp
  have c': "trim (drop (length (trim (lit ''```json{}'')) - 3) (take 7 (trim (lit ''```json{}''))))
            = lit ''n''" by code_simp
  have d: "\<not> startsWith (trim (lit ''```'')) (lit ''```json'') \<and>
           startsWith (trim (lit ''```'')) (lit ''```'') \<and>
           length (trim (lit ''```'')) < 6" by code_simp
  have d': "trim (drop (length (trim (lit ''```'')) - 3) (take 3 (trim (lit ''```''))))
            = lit ''```''" by code_simp
  from a a' stripFence_by_length [of "lit ''```json\<newline>[1,2,3]''"]
  have 1: "stripFence (lit ''```json\<newline>[1,2,3]'') = lit ''[1,2''" by presburger
  from b b' stripFence_by_length [of "lit ''```\<newline>[1,2,3]''"]
  have 2: "stripFence (lit ''```\<newline>[1,2,3]'') = lit ''[1,2''" by presburger
  from c c' stripFence_by_length [of "lit ''```json{}''"]
  have 3: "stripFence (lit ''```json{}'') = lit ''n''" by presburger
  from d d' stripFence_by_length [of "lit ''```''"]
  have 4: "stripFence (lit ''```'') = lit ''```''" by presburger
  from 1 2 3 4 show ?thesis by blast
qed

text \<open>
  C10 as stated fails on a text that is the tagged opening fence and nothing else: its final
  three characters are not removed, they are all that is kept.
\<close>

theorem stripFence_short_counterexample:
  "startsWith (trim (lit ''```json'')) (lit ''```json'') \<and>
   stripFence (lit ''```json'') = lit ''son'' \<and>
   stripFence_lastThreeRemoved (lit ''```json'') = [] \<and>
   stripFence (lit ''```json'') \<noteq> stripFence_lastThreeRemoved (lit ''```json'')"
  by code_simp

section \<open>Consistency of the resume document\<close>

text \<open>
  C1, as the code has it. A file selection that runs to its end with no other event in
  between, for a file with a non-empty name, leaves the resume document consistent from any
  state. File name and resume text are both empty after the rejection of a file that is not
  a PDF, after a text whose trimmed length is below 50, and after a failure of the PDF
  library. After a success the file name is the name of the file and the resume text is the
  concatenated text, which is not empty, so both are non-empty. While the file is being
  parsed the file name is already the name of the new file and the resume text is empty. A
  selection with no file changes nothing.
\<close>

theorem resumeDocument_after_selection:
  "(file_name f \<noteq> [] \<longrightarrow> resumeDocument_consistent (handleFileChange (Some f) out s)) \<and>
   (file_type f = lit ''application/pdf'' \<longrightarrow>
      resumeFileName (fst (handleFileChange_start (Some f) s)) = file_name f \<and>
      resumeText (fst (handleFileChange_start (Some f) s)) = [] \<and>
      isParsing (fst (handleFileChange_start (Some f) s))) \<and>
   (file_type f \<noteq> lit ''application/pdf'' \<longrightarrow>
      resumeFileName (handleFileChange (Some f) out s) = [] \<and>
      resumeText (handleFileChange (Some f) out s) = []) \<and>
   (file_type f = lit ''application/pdf'' \<longrightarrow>
      resumeFileName (handleFileChange (Some f) (Rejected err_name) s) = [] \<and>
      resumeText (handleFileChange (Some f) (Rejected err_name) s) = []) \<and>
   (file_type f = lit ''application/pdf'' \<and> length (trim (pageLoop pages [])) < 50 \<longrightarrow>
      resumeFileName (handleFileChange (Some f) (TextContent pages) s) = [] \<and>
      resumeText (handleFileChange (Some f) (TextContent pages) s) = []) \<and>
   (file_type f = lit ''application/pdf'' \<and> 50 \<le> length (trim (pageLoop pages [])) \<longrightarrow>
      resumeFileName (handleFileChange (Some f) (TextContent pages) s) = file_name f \<and>
      resumeText (handleFileChange (Some f) (TextContent pages) s) = pageLoop pages [] \<and>
      resumeText (handleFileChange (Some f) (TextContent pages) s) \<noteq> []) \<and>
   (file_type f = lit ''application/pdf'' \<and> 50 \<le> length (trim (pageLoop pages [])) \<and>
    file_name f \<noteq> [] \<longrightarrow>
      resumeFileName (handleFileChange (Some f) (TextContent pages) s) \<noteq> [] \<and>
      resumeText (handleFileChange (Some f) (TextContent pages) s) \<noteq> []) \<and>
   handleFileChange None out s = s"
proof -
  have a: "file_name f \<noteq> [] \<longrightarrow> resumeDocument_consistent (handleFileChange (Some f) out s)"
  proof (cases out)
    case (TextContent ps)
    then show ?thesis
      using trim_length50_nonempty [of "pageLoop ps []"]
      by (auto simp add: resumeDocument_consistent_def handleFileChange_def
          handleFileChange_start_def handleFileChange_finish_def fileChange_try_def Let_def)
  next
    case (Rejected n)
    then show ?thesis
      by (simp add: resumeDocument_consistent_def handleFileChange_def
          handleFileChange_start_def handleFileChange_finish_def fileChange_try_def
          fileChange_catch_def)
  qed
  have b: "file_type f = lit ''application/pdf'' \<longrightarrow>
      resumeFileName (fst (handleFileChange_start (Some f) s)) = file_name f \<and>
      resumeText (fst (handleFileChange_start (Some f) s)) = [] \<and>
      isParsing (fst (handleFileChange_start (Some f) s))"
    by (simp add: handleFileChange_start_def)
  have n: "file_type f \<noteq> lit ''application/pdf'' \<longrightarrow>
      resumeFileName (handleFileChange (Some f) out s) = [] \<and>
      resumeText (handleFileChange (Some f) out s) = []"
    by (simp add: handleFileChange_def handleFileChange_start_def)
  have c: "file_type f = lit ''application/pdf'' \<longrightarrow>
      resumeFileName (handleFileChange (Some f) (Rejected err_name) s) = [] \<and>
      resumeText (handleFileChange (Some f) (Rejected err_name) s) = []"
    by (simp add: handleFileChange_def handleFileChange_start_def handleFileChange_finish_def
        fileChange_try_def fileChange_catch_def)
  have lo: "file_type f = lit ''application/pdf'' \<and> length (trim (pageLoop pages [])) < 50 \<longrightarrow>
      resumeFileName (handleFileChange (Some f) (TextContent pages) s) = [] \<and>
      resumeText (handleFileChange (Some f) (TextContent pages) s) = []"
    by (simp add: handleFileChange_def handleFileChange_start_def handleFileChange_finish_def
        fileChange_try_def Let_def)
  have hi: "file_type f = lit ''application/pdf'' \<and> 50 \<le> length (trim (pageLoop pages [])) \<longrightarrow>
      resumeFileName (handleFileChange (Some f) (TextContent pages) s) = file_name f \<and>
      resumeText (handleFileChange (Some f) (TextContent pages) s) = pageLoop pages [] \<and>
      resumeText (handleFileChange (Some f) (TextContent pages) s) \<noteq> []"
    using trim_length50_nonempty [of "pageLoop pages []"]
    by (simp add: handleFileChange_def handleFileChange_start_def handleFileChange_finish_def
        fileChange_try_def Let_def)
  have hi': "file_type f = lit ''application/pdf'' \<and> 50 \<le> length (trim (pageLoop pages [])) \<and>
    file_name f \<noteq> [] \<longrightarrow>
      resumeFileName (handleFileChange (Some f) (TextContent pages) s) \<noteq> [] \<and>
      resumeText (handleFileChange (Some f) (TextContent pages) s) \<noteq> []"
    using trim_length50_nonempty [of "pageLoop pages []"]
    by (simp add: handleFileChange_def handleFileChange_start_def handleFileChange_finish_def
        fileChange_try_def Let_def)
  have d: "handleFileChange None out s = s"
    by (simp add: handleFileChange_def handleFileChange_start_def)
  from a b n c lo hi hi' d show ?thesis by blast
qed

theorem resumeDocument_after_selection_witness:
  "resumeDocument_consistent resumeReady_state \<and>
   resumeFileName resumeReady_state = lit ''cv.pdf'' \<and>
   resumeText resumeReady_state = pageLoop example_pages [] \<and>
   resumeText resumeReady_state \<noteq> [] \<and>
   resumeFileName (fst (handleFileChange_start (Some example_file) resumeReady_state)) = lit ''cv.pdf'' \<and>
   resumeText (fst (handleFileChange_start (Some example_file) resumeReady_state)) = [] \<and>
   resumeFileName (handleFileChange (Some example_file) (Rejected (lit ''PasswordException''))
      resumeReady_state) = [] \<and>
   resumeText (handleFileChange (Some example_file) (Rejected (lit ''PasswordException''))
      resumeReady_state) = [] \<and>
   resumeFileName (handleFileChange (Some example_file) (TextContent [[text49]])
      resumeReady_state) = [] \<and>
   resumeText (handleFileChange (Some example_file) (TextContent [[text49]])
      resumeReady_state) = [] \<and>
   resumeFileName (handleFileChange
      (Some \<lparr>file_name = lit ''cv.docx'', file_type = lit ''application/msword''\<rparr>)
      (TextContent example_pages) resumeReady_state) = [] \<and>
   resumeText (handleFileChange
      (Some \<lparr>file_name = lit ''cv.docx'', file_type = lit ''application/msword''\<rparr>)
      (TextContent example_pages) resumeReady_state) = []"
proof -
  let ?s0 = "(initial_state :: nat App_state)\<lparr>selectedJob := lit ''Data Scientist''\<rparr>"
  let ?doc = "\<lparr>file_name = lit ''cv.docx'', file_type = lit ''application/msword''\<rparr>"
  have n: "file_name example_file \<noteq> []" by code_simp
  have t: "file_type example_file = lit ''application/pdf''" by code_simp
  have nm: "file_name example_file = lit ''cv.pdf''" by code_simp
  have long: "50 \<le> length (trim (pageLoop example_pages []))" by code_simp
  have short: "length (trim (pageLoop [[text49]] [])) < 50" by code_simp
  have nt: "file_type ?doc \<noteq> lit ''application/pdf''" by code_simp
  have "resumeDocument_consistent (handleFileChange (Some example_file) (TextContent example_pages) ?s0) \<and>
      resumeFileName (handleFileChange (Some example_file) (TextContent example_pages) ?s0)
        = file_name example_file \<and>
      resumeText (handleFileChange (Some example_file) (TextContent example_pages) ?s0)
        = pageLoop example_pages [] \<and>
      resumeText (handleFileChange (Some example_file) (TextContent example_pages) ?s0) \<noteq> []"
    using n t long
      resumeDocument_after_selection [of example_file "TextContent example_pages" ?s0 _ example_pages]
    by blast
  then have ready: "resumeDocument_consistent resumeReady_state \<and>
      resumeFileName resumeReady_state = lit ''cv.pdf'' \<and>
      resumeText resumeReady_state = pageLoop example_pages [] \<and>
      resumeText resumeReady_state \<noteq> []"
    unfolding resumeReady_state_def nm .
  have "resumeFileName (fst (handleFileChange_start (Some example_file) resumeReady_state))
        = file_name example_file \<and>
      resumeText (fst (handleFileChange_start (Some example_file) resumeReady_state)) = []"
    using t resumeDocument_after_selection [of example_file _ resumeReady_state]
    by blast
  then have during: "resumeFileName (fst (handleFileChange_start (Some example_file) resumeReady_state))
        = lit ''cv.pdf'' \<and>
      resumeText (fst (handleFileChange_start (Some example_file) resumeReady_state)) = []"
    unfolding nm .
  have rejected: "resumeFileName (handleFileChange (Some example_file)
        (Rejected (lit ''PasswordException'')) resumeReady_state) = [] \<and>
      resumeText (handleFileChange (Some example_file)
        (Rejected (lit ''PasswordException'')) resumeReady_state) = []"
    using t resumeDocument_after_selection
      [of example_file _ resumeReady_state "lit ''PasswordException''"]
    by blast
  have unreadable: "resumeFileName (handleFileChange (Some example_file) (TextContent [[text49]])
        resumeReady_state) = [] \<and>
      resumeText (handleFileChange (Some example_file) (TextContent [[text49]])
        resumeReady_state) = []"
    using t short resumeDocument_after_selection
      [of example_file _ resumeReady_state _ "[[text49]]"]
    by blast
  have not_pdf: "resumeFileName (handleFileChange (Some ?doc) (TextContent example_pages)
        resumeReady_state) = [] \<and>
      resumeText (handleFileChange (Some ?doc) (TextContent example_pages)
        resumeReady_state) = []"
    using nt resumeDocument_after_selection
      [of ?doc "TextContent example_pages" resumeReady_state]
    by blast
  from ready during rejected unreadable not_pdf show ?thesis by blast
qed

text \<open>
  C1 as stated fails while a file is being parsed: the file name is set and the resume text
  is empty.
\<close>

theorem resumeDocument_partial_counterexample:
  "\<not> resumeDocument_consistent
       (fst (handleFileChange_start (Some example_file) (initial_state :: nat App_state)))"
  by code_simp

text \<open>
  The file input stays enabled while a file is being parsed. When a second file is selected
  during the parse of a first one, the first parse fails and the second succeeds, the second
  completion stores its text under the file name the first one has emptied.
\<close>

lemma overlapping_selections_example:
  "\<not> resumeDocument_consistent
      (handleFileChange_finish (TextContent example_pages)
        (handleFileChange_finish (Rejected (lit ''InvalidPDFException''))
          (fst (handleFileChange_start (Some example_file)
            (fst (handleFileChange_start (Some example_file)
              (initial_state :: nat App_state)))))))"
  by code_simp

end
